theory Spec2Isabelle
  imports Main "HOL-Library.Sublist"
begin

section \<open>Python values, exceptions and handler outcomes\<close>

text \<open>
  The module \<^verbatim>\<open>api.py\<close> is a FastAPI layer over a search engine. Its functions are
  embedded here as HOL functions. An exception is a value: its class, and the text that
  \<^verbatim>\<open>str(e)\<close> gives.
\<close>

datatype exc_class =
  TypeError | IndexError | ValueError | AttributeError
  | FileNotFoundError | JSONDecodeError | OtherException

datatype py_exception = Exc exc_class string

fun str_exc :: "py_exception \<Rightarrow> string" where
  "str_exc (Exc k msg) = msg"

text \<open>
  A raw search result is a path, or a pair of a path and a content hash; the loop variable
  \<^verbatim>\<open>v\<close> of the post-processor holds one of the two at every moment.
\<close>

datatype pyval = Str string | Tuple string string

text \<open>
  What a route handler does: it returns a body, raises \<^verbatim>\<open>HTTPException(status_code,
  detail)\<close>, lets another exception escape, or is never entered because the request
  body failed validation.
\<close>

datatype 'a outcome =
  Return 'a
  | HTTPException nat string
  | Unhandled py_exception
  | RequestValidationError "string list"

text \<open>
  The status line the framework answers with: 200 for a returned body, the status of an
  \<^verbatim>\<open>HTTPException\<close>, 500 for an exception that escapes the handler, 422 for a body
  that fails validation.
\<close>

fun http_status :: "'a outcome \<Rightarrow> nat" where
  "http_status (Return x) = 200"
| "http_status (HTTPException code detail) = code"
| "http_status (Unhandled e) = 500"
| "http_status (RequestValidationError errs) = 422"

text \<open>
  Truthiness of an optional string, as \<^verbatim>\<open>if x:\<close> tests it: \<^verbatim>\<open>None\<close> and the empty
  string are false. \<open>configured x\<close> is the string when the test succeeds.
\<close>

fun configured :: "string option \<Rightarrow> string option" where
  "configured None = None"
| "configured (Some s) = (if s = [] then None else Some s)"

text \<open>An optional string inside an f-string: \<^verbatim>\<open>None\<close> is printed as its name.\<close>

fun format_opt :: "string option \<Rightarrow> string" where
  "format_opt None = ''None''"
| "format_opt (Some s) = s"

subsection \<open>Indexing and string methods\<close>

text \<open>\<^verbatim>\<open>v[i]\<close> for the two indices the code uses; a string yields its \<open>i\<close>-th character.\<close>

definition subscript :: "pyval \<Rightarrow> nat \<Rightarrow> py_exception + string" where
  "subscript v i =
     (case v of
        Str s \<Rightarrow>
          if i < length s then Inr [s ! i]
          else Inl (Exc IndexError ''string index out of range'')
      | Tuple a b \<Rightarrow>
          if i = 0 then Inr a
          else if i = 1 then Inr b
          else Inl (Exc IndexError ''tuple index out of range''))"

definition endswith :: "string \<Rightarrow> string \<Rightarrow> bool" where
  "endswith s t = suffix t s"

text \<open>\<^verbatim>\<open>s.rfind(c)\<close> for a one-character \<open>c\<close>: the last index of \<open>c\<close>, or \<open>-1\<close>.\<close>

fun rfind_from :: "char \<Rightarrow> string \<Rightarrow> nat \<Rightarrow> int \<Rightarrow> int" where
  "rfind_from c [] i found = found"
| "rfind_from c (x # xs) i found =
     rfind_from c xs (Suc i) (if x = c then int i else found)"

definition rfind :: "string \<Rightarrow> char \<Rightarrow> int" where
  "rfind s c = rfind_from c s 0 (- 1)"

subsection \<open>\<^verbatim>\<open>os.path\<close> on POSIX\<close>

text \<open>
  \<^verbatim>\<open>posixpath.basename\<close>: \<^verbatim>\<open>i = p.rfind('/') + 1; return p[i:]\<close>.
\<close>

definition basename :: "string \<Rightarrow> string" where
  "basename p = drop (nat (rfind p (CHR ''/'') + 1)) p"

text \<open>
  \<^verbatim>\<open>genericpath._splitext(p, '/', None, '.')\<close>. The extension starts at the last dot,
  when that dot lies after the last separator and some character between the separator and
  the dot is not a dot; \<open>has_non_dot\<close> is the scan over \<^verbatim>\<open>p[sepIndex+1:dotIndex]\<close>.
\<close>

fun has_non_dot :: "string \<Rightarrow> bool" where
  "has_non_dot [] = False"
| "has_non_dot (c # cs) = (if c \<noteq> CHR ''.'' then True else has_non_dot cs)"

definition splitext :: "string \<Rightarrow> string \<times> string" where
  "splitext p =
     (let sepIndex = rfind p (CHR ''/'');
          dotIndex = rfind p (CHR ''.'')
      in if dotIndex > sepIndex \<and>
            has_non_dot (take (nat dotIndex - nat (sepIndex + 1)) (drop (nat (sepIndex + 1)) p))
         then (take (nat dotIndex) p, drop (nat dotIndex) p)
         else (p, []))"

section \<open>Configuration and library functions\<close>

text \<open>
  \<^verbatim>\<open>api_config.urls\<close>, loaded once by \<^verbatim>\<open>load_config()\<close>: the output mode, the pattern to
  strip, and the two affixes.
\<close>

record urls_config =
  return_type :: string
  path_replace_regex :: "string option"
  url_prefix :: "string option"
  url_postfix :: "string option"

text \<open>
  The standard-library functions the post-processor calls and this theory does not fix:
  \<^verbatim>\<open>re.sub(pattern, "", v)\<close>, \<^verbatim>\<open>os.path.relpath(v, start)\<close>, and \<^verbatim>\<open>repr\<close> of a string
  (used when a tuple is printed inside an f-string). Each of the first two raises on an
  argument it does not accept.
\<close>

record pylib =
  re_sub :: "string \<Rightarrow> pyval \<Rightarrow> py_exception + string"
  relpath :: "pyval \<Rightarrow> string \<Rightarrow> py_exception + string"
  repr_str :: "string \<Rightarrow> string"

text \<open>\<^verbatim>\<open>f'{v}'\<close>: a string as it is, a tuple as \<^verbatim>\<open>(repr, repr)\<close>.\<close>

definition py_format :: "pylib \<Rightarrow> pyval \<Rightarrow> string" where
  "py_format L v =
     (case v of
        Str s \<Rightarrow> s
      | Tuple a b \<Rightarrow> ''('' @ repr_str L a @ '', '' @ repr_str L b @ '')'')"

section \<open>The result post-processor\<close>

text \<open>
  The body of the loop of \<^verbatim>\<open>search_result_postprocess\<close>, in its four blocks. The first
  chooses the identifier by \<^verbatim>\<open>return_type\<close>: an \<^verbatim>\<open>if\<close>/\<^verbatim>\<open>elif\<close> chain with no \<^verbatim>\<open>else\<close>.
\<close>

definition select_identifier :: "pylib \<Rightarrow> urls_config \<Rightarrow> string \<Rightarrow> pyval \<Rightarrow> py_exception + pyval" where
  "select_identifier L c base_dir v =
     (if return_type c = ''abs_path'' then Inr v
      else if return_type c = ''rel_path'' then
        (case relpath L v base_dir of Inl e \<Rightarrow> Inl e | Inr r \<Rightarrow> Inr (Str r))
      else if return_type c = ''sha256'' then
        (case subscript v 1 of
           Inl e \<Rightarrow> Inl e
         | Inr h \<Rightarrow>
             (case subscript v 0 of
                Inl e \<Rightarrow> Inl e
              | Inr p \<Rightarrow> Inr (Str (h @ snd (splitext (basename p))))))
      else Inr v)"

definition regex_strip :: "pylib \<Rightarrow> urls_config \<Rightarrow> pyval \<Rightarrow> py_exception + pyval" where
  "regex_strip L c v =
     (case configured (path_replace_regex c) of
        None \<Rightarrow> Inr v
      | Some reg_pattern \<Rightarrow>
          (case re_sub L reg_pattern v of Inl e \<Rightarrow> Inl e | Inr r \<Rightarrow> Inr (Str r)))"

definition add_prefix :: "pylib \<Rightarrow> urls_config \<Rightarrow> pyval \<Rightarrow> pyval" where
  "add_prefix L c v =
     (case configured (url_prefix c) of
        None \<Rightarrow> v
      | Some pre \<Rightarrow> Str (pre @ ''/'' @ py_format L v))"

text \<open>
  The last block tests \<^verbatim>\<open>v.endswith(url_postfix)\<close>, a method a tuple does not have, and
  then formats \<^verbatim>\<open>f'{v}/{api_config.urls.url_prefix}'\<close>.
\<close>

definition add_postfix :: "urls_config \<Rightarrow> pyval \<Rightarrow> py_exception + pyval" where
  "add_postfix c v =
     (case configured (url_postfix c) of
        None \<Rightarrow> Inr v
      | Some post \<Rightarrow>
          (case v of
             Tuple a b \<Rightarrow>
               Inl (Exc AttributeError
                 (CHR 0x27 # ''tuple'' @ CHR 0x27 # '' object has no attribute '' @
                  CHR 0x27 # ''endswith'' @ [CHR 0x27]))
           | Str s \<Rightarrow>
               if \<not> endswith s post then Inr (Str (s @ ''/'' @ format_opt (url_prefix c)))
               else Inr v))"

definition process_result :: "pylib \<Rightarrow> urls_config \<Rightarrow> string \<Rightarrow> pyval \<Rightarrow> py_exception + pyval" where
  "process_result L c base_dir v =
     (case select_identifier L c base_dir v of
        Inl e \<Rightarrow> Inl e
      | Inr v1 \<Rightarrow>
          (case regex_strip L c v1 of
             Inl e \<Rightarrow> Inl e
           | Inr v2 \<Rightarrow> add_postfix c (add_prefix L c v2)))"

text \<open>The loop: \<open>ret\<close> grows by one element per result; an exception ends the call.\<close>

fun postprocess_loop ::
  "pylib \<Rightarrow> urls_config \<Rightarrow> string \<Rightarrow> pyval list \<Rightarrow> pyval list \<Rightarrow> py_exception + pyval list" where
  "postprocess_loop L c base_dir [] ret = Inr ret"
| "postprocess_loop L c base_dir (v # results) ret =
     (case process_result L c base_dir v of
        Inl e \<Rightarrow> Inl e
      | Inr v' \<Rightarrow> postprocess_loop L c base_dir results (ret @ [v']))"

definition search_result_postprocess ::
  "pylib \<Rightarrow> urls_config \<Rightarrow> string \<Rightarrow> pyval list \<Rightarrow> py_exception + pyval list" where
  "search_result_postprocess L c base_dir results = postprocess_loop L c base_dir results []"

section \<open>Route handlers\<close>

subsection \<open>\<^verbatim>\<open>POST /search\<close>\<close>


text \<open>A JSON value of a request body, and the body as a map from field names.\<close>

datatype json = JNull | JBool bool | JInt int | JStr string | JList "json list"












subsection \<open>\<^verbatim>\<open>GET /libs_manifest\<close>\<close>

text \<open>
  The file at \<^verbatim>\<open>manifest_path\<close>: absent, or present with a content that parses to a JSON
  value, that does not parse, or that cannot be read (the exception says why).
\<close>

datatype 'j manifest_file = Parses 'j | Malformed string | Unreadable py_exception

text \<open>\<^verbatim>\<open>open(manifest_path)\<close> followed by \<^verbatim>\<open>json.load(f)\<close>.\<close>

fun load_manifest :: "'j manifest_file option \<Rightarrow> py_exception + 'j" where
  "load_manifest None = Inl (Exc FileNotFoundError ''No such file or directory'')"
| "load_manifest (Some (Parses j)) = Inr j"
| "load_manifest (Some (Malformed msg)) = Inl (Exc JSONDecodeError msg)"
| "load_manifest (Some (Unreadable e)) = Inl e"

text \<open>
  \<^verbatim>\<open>CommunityService().reload_community_info()\<close> is the collaborator's: it leaves a new
  file state, or raises. The handler calls it outside its \<^verbatim>\<open>try\<close>. The result pairs the
  number of rebuilds with the outcome.
\<close>

definition get_libs_manifest ::
  "('j manifest_file option \<Rightarrow> py_exception + 'j manifest_file option)
    \<Rightarrow> 'j manifest_file option \<Rightarrow> nat \<times> 'j outcome" where
  "get_libs_manifest reload_community_info file =
     (let (rebuilds, after) =
            (case file of
               None \<Rightarrow> (1, reload_community_info file)
             | Some f \<Rightarrow> (0, Inr file))
      in case after of
           Inl e \<Rightarrow> (rebuilds, Unhandled e)
         | Inr file' \<Rightarrow>
             (rebuilds,
              case load_manifest file' of
                Inr manifest_data \<Rightarrow> Return manifest_data
              | Inl (Exc FileNotFoundError msg) \<Rightarrow> HTTPException 404 ''Manifest file not found''
              | Inl (Exc JSONDecodeError msg) \<Rightarrow>
                  HTTPException 500 ''Invalid JSON format in manifest file''
              | Inl (Exc k msg) \<Rightarrow> HTTPException 500 msg))"

subsection \<open>\<^verbatim>\<open>POST /generate-cache\<close>\<close>

text \<open>
  \<^verbatim>\<open>background_tasks\<close> is the list of tasks the framework runs after the response; the
  only task this handler adds is \<^verbatim>\<open>search_engine.generate_cache\<close>. \<open>has_cache\<close> is what
  \<^verbatim>\<open>search_engine.has_cache()\<close> reports.
\<close>

datatype task = Generate_Cache

definition generate_cache :: "bool \<Rightarrow> task list \<Rightarrow> task list \<times> string outcome" where
  "generate_cache has_cache background_tasks =
     (if \<not> has_cache then
        (background_tasks @ [Generate_Cache], Return ''Cache generation started'')
      else (background_tasks, Return ''Cache already exists''))"

subsection \<open>\<^verbatim>\<open>PUT /api-config\<close>\<close>

text \<open>
  \<^verbatim>\<open>search_engine.embedding_service\<close> holds the two settings the endpoint changes;
  \<^verbatim>\<open>ConfigUpdate\<close> is the request model, both fields optional.
\<close>

record embedding_service =
  api_key :: "string option"
  base_url :: "string option"

record ConfigUpdate =
  update_api_key :: "string option"
  update_base_url :: "string option"

text \<open>
  \<open>save\<close> is what \<^verbatim>\<open>config.save()\<close> does when called: \<open>None\<close> when it returns, the
  exception when it raises.
\<close>

definition update_config ::
  "py_exception option \<Rightarrow> ConfigUpdate \<Rightarrow> embedding_service \<Rightarrow> embedding_service \<times> string outcome" where
  "update_config save update service =
     (let service1 =
            (case configured (update_api_key update) of
               None \<Rightarrow> service
             | Some k \<Rightarrow> service\<lparr>api_key := Some k\<rparr>);
          service2 =
            (case configured (update_base_url update) of
               None \<Rightarrow> service1
             | Some u \<Rightarrow> service1\<lparr>base_url := Some u\<rparr>)
      in case save of
           None \<Rightarrow> (service2, Return ''Config updated successfully'')
         | Some e \<Rightarrow> (service2, HTTPException 500 (str_exc e)))"

section \<open>The library functions on POSIX\<close>

text \<open>
  Closed instances of the three library functions, as CPython defines them on a POSIX
  system, for evaluating the post-processor on concrete inputs. Characters are code
  points below 256.
\<close>

subsection \<open>\<^verbatim>\<open>posixpath.relpath\<close>\<close>

text \<open>\<^verbatim>\<open>s.split('/')\<close>: the pieces between separators, empty ones included.\<close>

fun split_sep :: "string \<Rightarrow> string list" where
  "split_sep [] = [[]]"
| "split_sep (c # cs) =
     (if c = CHR ''/'' then [] # split_sep cs
      else (case split_sep cs of [] \<Rightarrow> [[c]] | x # xs \<Rightarrow> (c # x) # xs))"

text \<open>\<^verbatim>\<open>'/'.join(comps)\<close>.\<close>

fun sep_join :: "string list \<Rightarrow> string" where
  "sep_join [] = []"
| "sep_join [x] = x"
| "sep_join (x # y # ys) = x @ ''/'' @ sep_join (y # ys)"

text \<open>\<^verbatim>\<open>posixpath.join(a, *p)\<close>: an absolute component restarts the path.\<close>

fun path_join :: "string \<Rightarrow> string list \<Rightarrow> string" where
  "path_join a [] = a"
| "path_join a (b # bs) =
     path_join
       (if prefix ''/'' b then b
        else if a = [] \<or> endswith a ''/'' then a @ b
        else a @ ''/'' @ b) bs"

text \<open>
  The loop of \<^verbatim>\<open>posixpath.normpath\<close> over the components, \<open>new_comps\<close> being the
  accumulator: empty components and \<^verbatim>\<open>.\<close> are dropped, \<^verbatim>\<open>..\<close> removes the component before
  it unless there is none to remove.
\<close>

fun normpath_loop :: "nat \<Rightarrow> string list \<Rightarrow> string list \<Rightarrow> string list" where
  "normpath_loop initial_slashes [] new_comps = new_comps"
| "normpath_loop initial_slashes (part # comps) new_comps =
     (if part = [] \<or> part = ''.'' then normpath_loop initial_slashes comps new_comps
      else if part \<noteq> ''..'' \<or> (initial_slashes = 0 \<and> new_comps = [])
              \<or> (new_comps \<noteq> [] \<and> last new_comps = ''..'')
        then normpath_loop initial_slashes comps (new_comps @ [part])
      else if new_comps \<noteq> [] then normpath_loop initial_slashes comps (butlast new_comps)
      else normpath_loop initial_slashes comps new_comps)"

definition normpath :: "string \<Rightarrow> string" where
  "normpath p =
     (if p = [] then ''.''
      else
        let initial_slashes =
              (if prefix ''/'' p then (if prefix ''//'' p \<and> \<not> prefix ''///'' p then 2 else 1)
               else (0::nat));
            comps = normpath_loop initial_slashes (split_sep p) [];
            path = replicate initial_slashes (CHR ''/'') @ sep_join comps
        in if path = [] then ''.'' else path)"

text \<open>\<^verbatim>\<open>posixpath.abspath\<close>, \<open>cwd\<close> being what \<^verbatim>\<open>os.getcwd()\<close> returns.\<close>

definition abspath :: "string \<Rightarrow> string \<Rightarrow> string" where
  "abspath cwd p = normpath (if \<not> prefix ''/'' p then path_join cwd [p] else p)"

definition posix_relpath :: "string \<Rightarrow> pyval \<Rightarrow> string \<Rightarrow> py_exception + string" where
  "posix_relpath cwd v start =
     (case v of
        Tuple a b \<Rightarrow>
          Inl (Exc TypeError ''expected str, bytes or os.PathLike object, not tuple'')
      | Str path \<Rightarrow>
          if path = [] then Inl (Exc ValueError ''no path specified'')
          else
            let start_list = filter (\<lambda>x. x \<noteq> []) (split_sep (abspath cwd start));
                path_list = filter (\<lambda>x. x \<noteq> []) (split_sep (abspath cwd path));
                i = length (longest_common_prefix start_list path_list);
                rel_list = replicate (length start_list - i) ''..'' @ drop i path_list
            in (case rel_list of
                  [] \<Rightarrow> Inr ''.''
                | r # rs \<Rightarrow> Inr (path_join r rs)))"


subsection \<open>\<^verbatim>\<open>re.sub\<close> with a pattern of ordinary characters\<close>

text \<open>
  A pattern without metacharacters matches itself only, and \<^verbatim>\<open>re.sub(pattern, "", s)\<close>
  removes its occurrences as a scan from the left finds them, each search starting where
  the match before it ended.
\<close>

definition is_literal :: "string \<Rightarrow> bool" where
  "is_literal p = list_all (\<lambda>c. c \<notin> set ''.^$*+?{}[]|()'' \<and> c \<noteq> CHR 0x5C) p"

fun remove_all :: "string \<Rightarrow> string \<Rightarrow> string" where
  "remove_all p [] = []"
| "remove_all p (c # cs) =
     (if p \<noteq> [] \<and> prefix p (c # cs) then remove_all p (drop (length p - 1) cs)
      else c # remove_all p cs)"

definition re_sub_literal :: "string \<Rightarrow> pyval \<Rightarrow> py_exception + string" where
  "re_sub_literal p v =
     (case v of
        Str s \<Rightarrow> Inr (remove_all p s)
      | Tuple a b \<Rightarrow>
          Inl (Exc TypeError
            (''expected string or bytes-like object, got '' @ CHR 0x27 # ''tuple'' @ [CHR 0x27])))"

text \<open>\<^verbatim>\<open>re.search(pattern, s) is not None\<close> for such a pattern: it occurs in \<open>s\<close>.\<close>

fun occurs_in :: "string \<Rightarrow> string \<Rightarrow> bool" where
  "occurs_in p [] = (p = [])"
| "occurs_in p (c # cs) = (prefix p (c # cs) \<or> occurs_in p cs)"

subsection \<open>\<^verbatim>\<open>repr\<close> of a string\<close>

definition hex2 :: "nat \<Rightarrow> string" where
  "hex2 n = [''0123456789abcdef'' ! (n div 16 mod 16), ''0123456789abcdef'' ! (n mod 16)]"

definition printable :: "char \<Rightarrow> bool" where
  "printable ch =
     (let n = (of_char ch :: nat) in (32 \<le> n \<and> n < 127) \<or> (161 \<le> n \<and> n \<noteq> 173))"

definition repr_char :: "char \<Rightarrow> char \<Rightarrow> string" where
  "repr_char quote ch =
     (if ch = quote \<or> ch = CHR 0x5C then [CHR 0x5C, ch]
      else if ch = CHR 0x09 then [CHR 0x5C, CHR ''t'']
      else if ch = CHR 0x0A then [CHR 0x5C, CHR ''n'']
      else if ch = CHR 0x0D then [CHR 0x5C, CHR ''r'']
      else if \<not> printable ch then CHR 0x5C # CHR ''x'' # hex2 (of_char ch)
      else [ch])"

definition py_repr :: "string \<Rightarrow> string" where
  "py_repr s =
     (let quote = (if CHR 0x27 \<in> set s \<and> CHR 0x22 \<notin> set s then CHR 0x22 else CHR 0x27)
      in quote # concat (map (repr_char quote) s) @ [quote])"

text \<open>
  The library on POSIX. \<^verbatim>\<open>re.sub\<close> is fixed on patterns of ordinary characters only; on
  a pattern with a metacharacter it is whatever the regex engine \<open>engine\<close> does, which this
  theory leaves open.
\<close>

definition posix_lib :: "string \<Rightarrow> (string \<Rightarrow> pyval \<Rightarrow> py_exception + string) \<Rightarrow> pylib" where
  "posix_lib cwd engine =
     \<lparr>re_sub = (\<lambda>pattern v. if is_literal pattern then re_sub_literal pattern v
                             else engine pattern v),
      relpath = posix_relpath cwd, repr_str = py_repr\<rparr>"

text \<open>
  A closed stand-in for the engine, for evaluating examples: every pattern in the examples
  below is made of ordinary characters, so it is never called.
\<close>

definition unsupported_pattern :: "string \<Rightarrow> pyval \<Rightarrow> py_exception + string" where
  "unsupported_pattern pattern v = Inl (Exc OtherException ''pattern with metacharacters'')"

section \<open>Notions the properties are stated with\<close>

text \<open>The pieces \<open>us\<close> put together with the separator \<open>p\<close> between neighbours.\<close>

fun join_with :: "'a list \<Rightarrow> 'a list list \<Rightarrow> 'a list" where
  "join_with p [] = []"
| "join_with p [u] = u"
| "join_with p (u # v # vs) = u @ p @ join_with p (v # vs)"

section \<open>Properties of the result post-processor\<close>

lemma configured_Some:
  "(configured x = Some s) = (x = Some s \<and> s \<noteq> [])"
  by (cases x) auto

lemma postprocess_loop_Inr:
  "(postprocess_loop L c b rs ret = Inr out) =
   (\<exists>ys. out = ret @ ys \<and> list_all2 (\<lambda>v w. process_result L c b v = Inr w) rs ys)"
proof (induction rs arbitrary: ret)
  case Nil
  then show ?case by auto
next
  case (Cons v rs)
  show ?case
  proof (cases "process_result L c b v")
    case (Inl e)
    then show ?thesis by (auto simp: list_all2_Cons1)
  next
    case (Inr w)
    then show ?thesis by (auto simp: Cons.IH list_all2_Cons1)
  qed
qed

text \<open>
  Claim C1. Where a postfix is configured and the identifier does not end with it, the
  claim wants the postfix appended. On the input below (prefix \<^verbatim>\<open>http://cdn\<close>, postfix
  \<^verbatim>\<open>.png\<close>, one path that does not end in \<^verbatim>\<open>.png\<close>) the post-processor appends a
  separator and the prefix instead: the result ends in \<^verbatim>\<open>/http://cdn\<close>, not in \<^verbatim>\<open>.png\<close>.
\<close>

theorem postfix_branch_appends_prefix:
  "search_result_postprocess L
     \<lparr>return_type = ''abs_path'', path_replace_regex = None,
      url_prefix = Some ''http://cdn'', url_postfix = Some ''.png''\<rparr>
     base_dir [Str ''/data/cat'']
   = Inr [Str ''http://cdn//data/cat/http://cdn'']"
  by (simp add: search_result_postprocess_def process_result_def select_identifier_def
      regex_strip_def add_prefix_def add_postfix_def py_format_def endswith_def
      suffix_to_prefix)

text \<open>
  Claim C9. The post-processor returns a list exactly when every input element is
  processed without an exception, and then the output pairs with the input position by
  position: same length, same order, the \<open>i\<close>-th output being the loop body applied to the
  \<open>i\<close>-th input under the configuration.
\<close>

theorem postprocess_elementwise:
  "((search_result_postprocess L c b rs = Inr out) =
      list_all2 (\<lambda>v w. process_result L c b v = Inr w) rs out)
   \<and> (search_result_postprocess L c b rs = Inr out \<longrightarrow>
        length out = length rs \<and>
        (\<forall>i<length rs. process_result L c b (rs ! i) = Inr (out ! i)))"
  by (auto simp: search_result_postprocess_def postprocess_loop_Inr list_all2_conv_all_nth)

lemma postprocess_example:
  "search_result_postprocess (posix_lib ''/home/app'' unsupported_pattern)
     \<lparr>return_type = ''rel_path'', path_replace_regex = Some ''img/'',
      url_prefix = Some ''http://cdn'', url_postfix = None\<rparr>
     ''/srv/data'' [Str ''/srv/data/img/a.png'', Str ''/srv/data/b.png'']
   = Inr [Str ''http://cdn/a.png'', Str ''http://cdn/b.png'']"
  by code_simp

theorem postprocess_elementwise_witness:
  "search_result_postprocess (posix_lib ''/home/app'' unsupported_pattern)
     \<lparr>return_type = ''rel_path'', path_replace_regex = Some ''img/'',
      url_prefix = Some ''http://cdn'', url_postfix = None\<rparr>
     ''/srv/data'' [Str ''/srv/data/img/a.png'', Str ''/srv/data/b.png'']
   = Inr [Str ''http://cdn/a.png'', Str ''http://cdn/b.png'']
   \<and> length [Str ''http://cdn/a.png'', Str ''http://cdn/b.png'']
       = length [Str ''/srv/data/img/a.png'', Str ''/srv/data/b.png'']
   \<and> process_result (posix_lib ''/home/app'' unsupported_pattern)
        \<lparr>return_type = ''rel_path'', path_replace_regex = Some ''img/'',
         url_prefix = Some ''http://cdn'', url_postfix = None\<rparr>
        ''/srv/data'' (Str ''/srv/data/b.png'') = Inr (Str ''http://cdn/b.png'')"
proof -
  let ?L = "posix_lib ''/home/app'' unsupported_pattern"
  let ?c = "\<lparr>return_type = ''rel_path'', path_replace_regex = Some ''img/'',
      url_prefix = Some ''http://cdn'', url_postfix = None\<rparr>"
  let ?rs = "[Str ''/srv/data/img/a.png'', Str ''/srv/data/b.png'']"
  let ?out = "[Str ''http://cdn/a.png'', Str ''http://cdn/b.png'']"
  note e = postprocess_example
  from postprocess_elementwise [of ?L ?c "''/srv/data''" ?rs ?out] e
  have all: "\<forall>i<length ?rs. process_result ?L ?c ''/srv/data'' (?rs ! i) = Inr (?out ! i)"
    by blast
  have "(1::nat) < length ?rs" by simp
  with all have "process_result ?L ?c ''/srv/data'' (?rs ! 1) = Inr (?out ! 1)"
    by blast
  with e show ?thesis by simp
qed

subsection \<open>Identifier selection\<close>

lemma rfind_from_absent: "c \<notin> set s \<Longrightarrow> rfind_from c s i found = found"
  by (induction s arbitrary: i) auto



lemma rfind_absent: "c \<notin> set s \<Longrightarrow> rfind s c = - 1"
  by (simp add: rfind_def rfind_from_absent)



lemma basename_plain: "CHR ''/'' \<notin> set name \<Longrightarrow> basename name = name"
  by (simp add: basename_def rfind_absent)
















subsection \<open>Regex strip\<close>

text \<open>
  Claim C3, as stated, fails: with the pattern \<^verbatim>\<open>img\<close> and the prefix
  \<^verbatim>\<open>http://cdn/img\<close>, the output \<^verbatim>\<open>http://cdn/img//srv/data//a.png\<close> contains a match,
  brought in by the prefix that is added after the strip; and with the pattern \<^verbatim>\<open>ab\<close>
  and no affix, the path \<^verbatim>\<open>/srv/aabb.png\<close> becomes \<^verbatim>\<open>/srv/ab.png\<close>, where removing the
  one match the scan finds leaves a new one.
\<close>

theorem strip_regex_counterexample:
  "is_literal ''img''
   \<and> search_result_postprocess (posix_lib ''/home/app'' unsupported_pattern)
        \<lparr>return_type = ''abs_path'', path_replace_regex = Some ''img'',
         url_prefix = Some ''http://cdn/img'', url_postfix = None\<rparr>
        ''/srv/data'' [Str ''/srv/data/img/a.png'']
      = Inr [Str ''http://cdn/img//srv/data//a.png'']
   \<and> occurs_in ''img'' ''http://cdn/img//srv/data//a.png''
   \<and> is_literal ''ab''
   \<and> search_result_postprocess (posix_lib ''/home/app'' unsupported_pattern)
        \<lparr>return_type = ''abs_path'', path_replace_regex = Some ''ab'',
         url_prefix = None, url_postfix = None\<rparr>
        ''/srv/data'' [Str ''/srv/aabb.png'']
      = Inr [Str ''/srv/ab.png'']
   \<and> occurs_in ''ab'' ''/srv/ab.png''"
  by code_simp

lemma join_with_Cons: "join_with p ((c # u) # vs) = c # join_with p (u # vs)"
  by (cases vs) auto

lemma join_with_prefix: "prefix u (join_with p (u # vs))"
  by (cases vs) auto

lemma occurs_in_single: "occurs_in [ch] s = (ch \<in> set s)"
  by (induction s) auto

text \<open>
  What the scan of \<^verbatim>\<open>re.sub\<close> does with a pattern of ordinary characters: it cuts the
  string at the matches it finds, into pieces none of which contains a match, and keeps
  the pieces.
\<close>

lemma remove_all_pieces:
  "p \<noteq> [] \<Longrightarrow>
   \<exists>us. us \<noteq> [] \<and> s = join_with p us \<and> remove_all p s = concat us
        \<and> list_all (\<lambda>u. \<not> occurs_in p u) us"
proof (induction p s rule: remove_all.induct)
  case (1 p)
  then have "[[]] \<noteq> [] \<and> [] = join_with p [[]] \<and> remove_all p [] = concat [[]]
      \<and> list_all (\<lambda>u. \<not> occurs_in p u) [[]]"
    by simp
  then show ?case by blast
next
  case (2 p c cs)
  show ?case
  proof (cases "prefix p (c # cs)")
    case True
    let ?rest = "drop (length p - 1) cs"
    from True 2(3) have split: "c # cs = p @ ?rest"
      by (cases p) (auto simp: prefix_def)
    from 2(1) True 2(3) obtain us where us: "us \<noteq> []" "?rest = join_with p us"
        "remove_all p ?rest = concat us" "list_all (\<lambda>u. \<not> occurs_in p u) us"
      by blast
    from us(1) obtain v vs where vs: "us = v # vs"
      by (cases us) auto
    have "c # cs = join_with p ([] # us)"
      using split us(2) vs by simp
    moreover have "remove_all p (c # cs) = concat ([] # us)"
      using True 2(3) us(3) by simp
    moreover have "list_all (\<lambda>u. \<not> occurs_in p u) ([] # us)"
      using us(4) 2(3) by simp
    ultimately show ?thesis by blast
  next
    case False
    with 2(2) 2(3) obtain us where us: "us \<noteq> []" "cs = join_with p us"
        "remove_all p cs = concat us" "list_all (\<lambda>u. \<not> occurs_in p u) us"
      by blast
    from us(1) obtain u vs where vs: "us = u # vs"
      by (cases us) auto
    have "prefix (c # u) (c # cs)"
      using join_with_prefix [of u p vs] us(2) vs by simp
    with False have np: "\<not> prefix p (c # u)"
      using prefix_order.trans by blast
    have "c # cs = join_with p ((c # u) # vs)"
      using us(2) vs by (simp add: join_with_Cons)
    moreover have "remove_all p (c # cs) = concat ((c # u) # vs)"
      using False us(3) vs by simp
    moreover have "list_all (\<lambda>u. \<not> occurs_in p u) ((c # u) # vs)"
      using us(4) vs np by simp
    ultimately show ?thesis by blast
  qed
qed

text \<open>
  Claim C3, amended. When a strip pattern is configured, the loop body applies
  \<^verbatim>\<open>re.sub(pattern, "", v)\<close> once to the identifier the first step chose, and only then
  adds the prefix and the postfix part. For a pattern of ordinary characters every match
  the scan finds in that identifier is removed: the identifier is a sequence of pieces
  with one match between neighbours, no piece contains a match, and the output identifier
  is the affixes around the pieces put end to end (exactly the pieces when no affix is
  configured). So a match can occur in an output identifier only inside or across an
  affix, or where a removal joined two pieces; with a one-character pattern and no affix,
  no match occurs in it.
\<close>

theorem regex_strip_before_affixes:
  "(configured (path_replace_regex c) = Some pat \<longrightarrow>
      process_result L c b v =
        (case select_identifier L c b v of
           Inl e \<Rightarrow> Inl e
         | Inr v1 \<Rightarrow>
             (case re_sub L pat v1 of
                Inl e \<Rightarrow> Inl e
              | Inr r \<Rightarrow> add_postfix c (add_prefix L c (Str r)))))
   \<and> (configured (path_replace_regex c) = Some pat \<and> process_result L c b v = Inr w \<longrightarrow>
        (\<exists>v1 r. select_identifier L c b v = Inr v1 \<and> re_sub L pat v1 = Inr r
           \<and> add_postfix c (add_prefix L c (Str r)) = Inr w
           \<and> (configured (url_prefix c) = None \<and> configured (url_postfix c) = None
                \<longrightarrow> w = Str r)))
   \<and> (configured (path_replace_regex c) = Some pat \<and> is_literal pat
        \<and> select_identifier (posix_lib cwd eng) c b v = Inr (Str s) \<longrightarrow>
        (\<exists>us. s = join_with pat us \<and> list_all (\<lambda>u. \<not> occurs_in pat u) us
           \<and> process_result (posix_lib cwd eng) c b v
               = add_postfix c (add_prefix (posix_lib cwd eng) c (Str (concat us)))
           \<and> (configured (url_prefix c) = None \<and> configured (url_postfix c) = None \<longrightarrow>
                process_result (posix_lib cwd eng) c b v = Inr (Str (concat us)))))
   \<and> (configured (path_replace_regex c) = Some [ch] \<and> is_literal [ch]
        \<and> configured (url_prefix c) = None \<and> configured (url_postfix c) = None
        \<and> select_identifier (posix_lib cwd eng) c b v = Inr (Str s) \<longrightarrow>
        (\<exists>out. process_result (posix_lib cwd eng) c b v = Inr (Str out)
           \<and> \<not> occurs_in [ch] out))"
proof -
  let ?P = "posix_lib cwd eng"
  have c12: "(configured (path_replace_regex c) = Some pat \<longrightarrow>
      process_result L c b v =
        (case select_identifier L c b v of
           Inl e \<Rightarrow> Inl e
         | Inr v1 \<Rightarrow>
             (case re_sub L pat v1 of
                Inl e \<Rightarrow> Inl e
              | Inr r \<Rightarrow> add_postfix c (add_prefix L c (Str r)))))
   \<and> (configured (path_replace_regex c) = Some pat \<and> process_result L c b v = Inr w \<longrightarrow>
        (\<exists>v1 r. select_identifier L c b v = Inr v1 \<and> re_sub L pat v1 = Inr r
           \<and> add_postfix c (add_prefix L c (Str r)) = Inr w
           \<and> (configured (url_prefix c) = None \<and> configured (url_postfix c) = None
                \<longrightarrow> w = Str r)))"
    by (auto simp: process_result_def regex_strip_def add_prefix_def add_postfix_def
        split: sum.splits)
  have pieces: "\<exists>us. s = join_with q us \<and> list_all (\<lambda>u. \<not> occurs_in q u) us
      \<and> process_result ?P c b v = add_postfix c (add_prefix ?P c (Str (concat us)))
      \<and> (configured (url_prefix c) = None \<and> configured (url_postfix c) = None \<longrightarrow>
           process_result ?P c b v = Inr (Str (concat us)))"
    if cfg: "configured (path_replace_regex c) = Some q" and lit: "is_literal q"
      and sel: "select_identifier ?P c b v = Inr (Str s)" for q
  proof -
    from cfg have ne: "q \<noteq> []"
      by (simp add: configured_Some)
    from remove_all_pieces [OF ne, of s] obtain us where us: "s = join_with q us"
        "remove_all q s = concat us" "list_all (\<lambda>u. \<not> occurs_in q u) us"
      by blast
    have sub: "re_sub ?P q (Str s) = Inr (concat us)"
      using lit us(2) by (simp add: posix_lib_def re_sub_literal_def)
    have pr: "process_result ?P c b v = add_postfix c (add_prefix ?P c (Str (concat us)))"
      using cfg sel sub by (simp add: process_result_def regex_strip_def)
    have noaff: "configured (url_prefix c) = None \<and> configured (url_postfix c) = None \<longrightarrow>
        process_result ?P c b v = Inr (Str (concat us))"
      by (simp add: pr add_prefix_def add_postfix_def)
    from us(1) us(3) pr noaff
    have "s = join_with q us \<and> list_all (\<lambda>u. \<not> occurs_in q u) us
      \<and> process_result ?P c b v = add_postfix c (add_prefix ?P c (Str (concat us)))
      \<and> (configured (url_prefix c) = None \<and> configured (url_postfix c) = None \<longrightarrow>
           process_result ?P c b v = Inr (Str (concat us)))"
      by (intro conjI)
    then show ?thesis by (rule exI)
  qed
  have c3: "configured (path_replace_regex c) = Some pat \<and> is_literal pat
        \<and> select_identifier ?P c b v = Inr (Str s) \<longrightarrow>
        (\<exists>us. s = join_with pat us \<and> list_all (\<lambda>u. \<not> occurs_in pat u) us
           \<and> process_result ?P c b v = add_postfix c (add_prefix ?P c (Str (concat us)))
           \<and> (configured (url_prefix c) = None \<and> configured (url_postfix c) = None \<longrightarrow>
                process_result ?P c b v = Inr (Str (concat us))))"
  proof (intro impI, elim conjE)
    assume "configured (path_replace_regex c) = Some pat" "is_literal pat"
      "select_identifier ?P c b v = Inr (Str s)"
    then show "\<exists>us. s = join_with pat us \<and> list_all (\<lambda>u. \<not> occurs_in pat u) us
           \<and> process_result ?P c b v = add_postfix c (add_prefix ?P c (Str (concat us)))
           \<and> (configured (url_prefix c) = None \<and> configured (url_postfix c) = None \<longrightarrow>
                process_result ?P c b v = Inr (Str (concat us)))"
      by (rule pieces)
  qed
  have c4: "configured (path_replace_regex c) = Some [ch] \<and> is_literal [ch]
        \<and> configured (url_prefix c) = None \<and> configured (url_postfix c) = None
        \<and> select_identifier ?P c b v = Inr (Str s) \<longrightarrow>
        (\<exists>out. process_result ?P c b v = Inr (Str out) \<and> \<not> occurs_in [ch] out)"
  proof (intro impI, elim conjE)
    assume cfg: "configured (path_replace_regex c) = Some [ch]" and lit: "is_literal [ch]"
      and pre: "configured (url_prefix c) = None" and post: "configured (url_postfix c) = None"
      and sel: "select_identifier ?P c b v = Inr (Str s)"
    from pieces [OF cfg lit sel] obtain us where
        us: "list_all (\<lambda>u. \<not> occurs_in [ch] u) us"
        and imp: "configured (url_prefix c) = None \<and> configured (url_postfix c) = None \<longrightarrow>
           process_result ?P c b v = Inr (Str (concat us))"
      by (elim exE conjE)
    from imp pre post have res: "process_result ?P c b v = Inr (Str (concat us))"
      by simp
    from us have "ch \<notin> set (concat us)"
      by (induction us) (simp_all add: occurs_in_single)
    then have "\<not> occurs_in [ch] (concat us)"
      by (simp add: occurs_in_single)
    with res have "process_result ?P c b v = Inr (Str (concat us))
        \<and> \<not> occurs_in [ch] (concat us)"
      by (intro conjI)
    then show "\<exists>out. process_result ?P c b v = Inr (Str out) \<and> \<not> occurs_in [ch] out"
      by (rule exI)
  qed
  from c12 c3 c4 show ?thesis
    by (intro conjI) (erule conjunct1, erule conjunct2, assumption+)
qed

lemma remove_all_example:
  "remove_all ''img/'' ''/srv/img/a.png'' = ''/srv/a.png''
   \<and> remove_all ''_'' ''/srv/a_b_c.png'' = ''/srv/abc.png''"
  by code_simp

theorem regex_strip_before_affixes_witness:
  "process_result (posix_lib ''/home/app'' unsupported_pattern)
     \<lparr>return_type = ''abs_path'', path_replace_regex = Some ''img/'',
      url_prefix = Some ''http://cdn'', url_postfix = None\<rparr>
     ''/srv/data'' (Str ''/srv/img/a.png'') = Inr (Str ''http://cdn//srv/a.png'')
   \<and> process_result (posix_lib ''/home/app'' unsupported_pattern)
     \<lparr>return_type = ''abs_path'', path_replace_regex = Some ''img/'',
      url_prefix = None, url_postfix = None\<rparr>
     ''/srv/data'' (Str ''/srv/img/a.png'') = Inr (Str ''/srv/a.png'')
   \<and> re_sub (posix_lib ''/home/app'' unsupported_pattern) ''img/'' (Str ''/srv/img/a.png'')
       = Inr ''/srv/a.png''
   \<and> join_with ''img/'' [''/srv/'', ''a.png''] = ''/srv/img/a.png''
   \<and> \<not> occurs_in ''img/'' ''/srv/'' \<and> \<not> occurs_in ''img/'' ''a.png''
   \<and> process_result (posix_lib ''/home/app'' unsupported_pattern)
     \<lparr>return_type = ''abs_path'', path_replace_regex = Some ''_'',
      url_prefix = None, url_postfix = None\<rparr>
     ''/srv/data'' (Str ''/srv/a_b_c.png'') = Inr (Str ''/srv/abc.png'')
   \<and> \<not> occurs_in ''_'' ''/srv/abc.png''"
proof -
  let ?L = "posix_lib ''/home/app'' unsupported_pattern"
  let ?v = "Str ''/srv/img/a.png''"
  let ?c1 = "\<lparr>return_type = ''abs_path'', path_replace_regex = Some ''img/'',
      url_prefix = Some ''http://cdn'', url_postfix = None\<rparr>"
  let ?c2 = "\<lparr>return_type = ''abs_path'', path_replace_regex = Some ''img/'',
      url_prefix = None, url_postfix = None\<rparr>"
  let ?c3 = "\<lparr>return_type = ''abs_path'', path_replace_regex = Some ''_'',
      url_prefix = None, url_postfix = None\<rparr>"
  have lit: "is_literal ''img/''" "is_literal ''_''"
    by (simp_all add: is_literal_def)
  have sub: "re_sub ?L ''img/'' ?v = Inr ''/srv/a.png''"
    using remove_all_example lit by (simp add: posix_lib_def re_sub_literal_def)
  have sub3: "re_sub ?L ''_'' (Str ''/srv/a_b_c.png'') = Inr ''/srv/abc.png''"
    using remove_all_example lit by (simp add: posix_lib_def re_sub_literal_def)
  have sel1: "select_identifier ?L ?c1 ''/srv/data'' ?v = Inr ?v"
    by (simp add: select_identifier_def)
  have sel2: "select_identifier ?L ?c2 ''/srv/data'' ?v = Inr ?v"
    by (simp add: select_identifier_def)
  have sel3: "select_identifier ?L ?c3 ''/srv/data'' (Str ''/srv/a_b_c.png'')
      = Inr (Str ''/srv/a_b_c.png'')"
    by (simp add: select_identifier_def)
  have "configured (path_replace_regex ?c1) = Some ''img/''"
    by simp
  from regex_strip_before_affixes [where c = ?c1 and pat = "''img/''" and L = ?L
      and b = "''/srv/data''" and v = ?v and w = "Str ''http://cdn//srv/a.png''"
      and cwd = "''/home/app''" and eng = unsupported_pattern and s = "''/srv/img/a.png''"
      and ch = "CHR ''_''", THEN conjunct1, THEN mp, OF this]
  have "process_result ?L ?c1 ''/srv/data'' ?v =
      (case select_identifier ?L ?c1 ''/srv/data'' ?v of
         Inl e \<Rightarrow> Inl e
       | Inr v1 \<Rightarrow>
           (case re_sub ?L ''img/'' v1 of
              Inl e \<Rightarrow> Inl e
            | Inr r \<Rightarrow> add_postfix ?c1 (add_prefix ?L ?c1 (Str r))))" .
  then have p1: "process_result ?L ?c1 ''/srv/data'' ?v = Inr (Str ''http://cdn//srv/a.png'')"
    by (simp add: sel1 sub add_prefix_def add_postfix_def py_format_def)
  have "configured (path_replace_regex ?c2) = Some ''img/''"
    by simp
  from regex_strip_before_affixes [where c = ?c2 and pat = "''img/''" and L = ?L
      and b = "''/srv/data''" and v = ?v and w = "Str ''/srv/a.png''"
      and cwd = "''/home/app''" and eng = unsupported_pattern and s = "''/srv/img/a.png''"
      and ch = "CHR ''_''", THEN conjunct1, THEN mp, OF this]
  have "process_result ?L ?c2 ''/srv/data'' ?v =
      (case select_identifier ?L ?c2 ''/srv/data'' ?v of
         Inl e \<Rightarrow> Inl e
       | Inr v1 \<Rightarrow>
           (case re_sub ?L ''img/'' v1 of
              Inl e \<Rightarrow> Inl e
            | Inr r \<Rightarrow> add_postfix ?c2 (add_prefix ?L ?c2 (Str r))))" .
  then have p2: "process_result ?L ?c2 ''/srv/data'' ?v = Inr (Str ''/srv/a.png'')"
    by (simp add: sel2 sub add_prefix_def add_postfix_def py_format_def)
  have "configured (path_replace_regex ?c3) = Some ''_''"
    by simp
  from regex_strip_before_affixes [where c = ?c3 and pat = "''_''" and L = ?L
      and b = "''/srv/data''" and v = "Str ''/srv/a_b_c.png''" and w = "Str ''/srv/abc.png''"
      and cwd = "''/home/app''" and eng = unsupported_pattern and s = "''/srv/a_b_c.png''"
      and ch = "CHR ''_''", THEN conjunct1, THEN mp, OF this]
  have "process_result ?L ?c3 ''/srv/data'' (Str ''/srv/a_b_c.png'') =
      (case select_identifier ?L ?c3 ''/srv/data'' (Str ''/srv/a_b_c.png'') of
         Inl e \<Rightarrow> Inl e
       | Inr v1 \<Rightarrow>
           (case re_sub ?L ''_'' v1 of
              Inl e \<Rightarrow> Inl e
            | Inr r \<Rightarrow> add_postfix ?c3 (add_prefix ?L ?c3 (Str r))))" .
  then have p3: "process_result ?L ?c3 ''/srv/data'' (Str ''/srv/a_b_c.png'')
      = Inr (Str ''/srv/abc.png'')"
    by (simp add: sel3 sub3 add_prefix_def add_postfix_def py_format_def)
  have occ: "join_with ''img/'' [''/srv/'', ''a.png''] = ''/srv/img/a.png''
      \<and> \<not> occurs_in ''img/'' ''/srv/'' \<and> \<not> occurs_in ''img/'' ''a.png''
      \<and> \<not> occurs_in ''_'' ''/srv/abc.png''"
    by code_simp
  from p1 p2 p3 sub occ show ?thesis by simp
qed

section \<open>Properties of the route handlers\<close>

text \<open>
  Claim C4. When the engine reports no cache, \<^verbatim>\<open>POST /generate-cache\<close> adds exactly one
  task (the cache construction) to the background tasks and answers that generation
  started; when the engine reports a cache, it adds nothing and answers that the cache
  already exists.
\<close>

theorem generate_cache_cases:
  "(\<not> has_cache \<longrightarrow>
      generate_cache has_cache tasks = (tasks @ [Generate_Cache], Return ''Cache generation started'')
      \<and> length (fst (generate_cache has_cache tasks)) = length tasks + 1
      \<and> generate_cache has_cache [] = ([Generate_Cache], Return ''Cache generation started''))
   \<and> (has_cache \<longrightarrow>
      generate_cache has_cache tasks = (tasks, Return ''Cache already exists''))"
  by (simp add: generate_cache_def)

theorem generate_cache_cases_witness:
  "generate_cache False [] = ([Generate_Cache], Return ''Cache generation started'')
   \<and> length (fst (generate_cache False [])) = 1
   \<and> generate_cache True [] = ([], Return ''Cache already exists'')"
  using generate_cache_cases [of False "[]"] generate_cache_cases [of True "[]"]
  by simp

text \<open>
  Claim C5. A \<^verbatim>\<open>PUT /api-config\<close> request without \<^verbatim>\<open>base_url\<close> leaves the engine's
  \<^verbatim>\<open>base_url\<close> as it was, and one without \<^verbatim>\<open>api_key\<close> leaves the engine's \<^verbatim>\<open>api_key\<close> as
  it was, whatever the other field holds and whether or not saving succeeds.
\<close>

theorem update_config_frame:
  "(update_base_url update = None \<longrightarrow>
      base_url (fst (update_config save update service)) = base_url service)
   \<and> (update_api_key update = None \<longrightarrow>
      api_key (fst (update_config save update service)) = api_key service)"
  by (simp add: update_config_def Let_def split: option.splits)

theorem update_config_frame_witness:
  "fst (update_config None \<lparr>update_api_key = Some ''sk-new'', update_base_url = None\<rparr>
          \<lparr>api_key = Some ''sk-old'', base_url = Some ''http://old''\<rparr>)
     = \<lparr>api_key = Some ''sk-new'', base_url = Some ''http://old''\<rparr>
   \<and> fst (update_config None \<lparr>update_api_key = None, update_base_url = Some ''http://new''\<rparr>
          \<lparr>api_key = Some ''sk-old'', base_url = Some ''http://old''\<rparr>)
     = \<lparr>api_key = Some ''sk-old'', base_url = Some ''http://new''\<rparr>"
  using
    update_config_frame [of "\<lparr>update_api_key = Some ''sk-new'', update_base_url = None\<rparr>"
      None "\<lparr>api_key = Some ''sk-old'', base_url = Some ''http://old''\<rparr>"]
    update_config_frame [of "\<lparr>update_api_key = None, update_base_url = Some ''http://new''\<rparr>"
      None "\<lparr>api_key = Some ''sk-old'', base_url = Some ''http://old''\<rparr>"]
  by (simp add: update_config_def)

text \<open>
  Claim C6. When saving fails after the fields were applied, \<^verbatim>\<open>PUT /api-config\<close> raises
  an HTTP 500 whose detail is the text of the failure, and the engine's settings are the
  ones a successful call would have left: every provided non-empty field holds its new
  value, nothing is rolled back.
\<close>

theorem update_config_save_fails:
  "update_config (Some e) update service =
     (fst (update_config None update service), HTTPException 500 (str_exc e))
   \<and> (configured (update_api_key update) = Some k \<longrightarrow>
        api_key (fst (update_config (Some e) update service)) = Some k)
   \<and> (configured (update_base_url update) = Some u \<longrightarrow>
        base_url (fst (update_config (Some e) update service)) = Some u)"
  by (simp add: update_config_def Let_def split: option.splits)

theorem update_config_save_fails_witness:
  "update_config (Some (Exc OtherException ''disk full''))
     \<lparr>update_api_key = Some ''sk-new'', update_base_url = Some ''http://new''\<rparr>
     \<lparr>api_key = Some ''sk-old'', base_url = Some ''http://old''\<rparr>
   = (\<lparr>api_key = Some ''sk-new'', base_url = Some ''http://new''\<rparr>,
      HTTPException 500 ''disk full'')"
  using update_config_save_fails [of "Exc OtherException ''disk full''"
      "\<lparr>update_api_key = Some ''sk-new'', update_base_url = Some ''http://new''\<rparr>"
      "\<lparr>api_key = Some ''sk-old'', base_url = Some ''http://old''\<rparr>" "''sk-new''" "''http://new''"]
  by (simp add: update_config_def)

text \<open>
  Claim C10. A \<^verbatim>\<open>PUT /api-config\<close> request whose \<^verbatim>\<open>api_key\<close> is the empty string leaves
  the engine's \<^verbatim>\<open>api_key\<close> as it was, and likewise for \<^verbatim>\<open>base_url\<close>; so whenever the
  handler changes a field, the new value is not the empty string.
\<close>

theorem update_config_empty_string:
  "(update_api_key update = Some [] \<longrightarrow>
      api_key (fst (update_config save update service)) = api_key service)
   \<and> (update_base_url update = Some [] \<longrightarrow>
      base_url (fst (update_config save update service)) = base_url service)
   \<and> (api_key (fst (update_config save update service)) \<noteq> api_key service \<longrightarrow>
      api_key (fst (update_config save update service)) \<noteq> Some [])
   \<and> (base_url (fst (update_config save update service)) \<noteq> base_url service \<longrightarrow>
      base_url (fst (update_config save update service)) \<noteq> Some [])"
  by (auto simp: update_config_def Let_def configured_Some split: option.splits)

theorem update_config_empty_string_witness:
  "fst (update_config None \<lparr>update_api_key = Some [], update_base_url = Some []\<rparr>
          \<lparr>api_key = Some ''sk-old'', base_url = Some ''http://old''\<rparr>)
     = \<lparr>api_key = Some ''sk-old'', base_url = Some ''http://old''\<rparr>
   \<and> api_key (fst (update_config None \<lparr>update_api_key = Some ''k'', update_base_url = Some ''u''\<rparr>
          \<lparr>api_key = Some ''sk-old'', base_url = Some ''http://old''\<rparr>)) \<noteq> Some []
   \<and> base_url (fst (update_config None \<lparr>update_api_key = Some ''k'', update_base_url = Some ''u''\<rparr>
          \<lparr>api_key = Some ''sk-old'', base_url = Some ''http://old''\<rparr>)) \<noteq> Some []"
  using
    update_config_empty_string [of "\<lparr>update_api_key = Some [], update_base_url = Some []\<rparr>"
      None "\<lparr>api_key = Some ''sk-old'', base_url = Some ''http://old''\<rparr>"]
    update_config_empty_string [of "\<lparr>update_api_key = Some ''k'', update_base_url = Some ''u''\<rparr>"
      None "\<lparr>api_key = Some ''sk-old'', base_url = Some ''http://old''\<rparr>"]
  by (simp add: update_config_def)

text \<open>
  Claim C7. \<^verbatim>\<open>GET /libs_manifest\<close> rebuilds the manifest once, before reading, exactly
  when the file is absent. A file still absent after the rebuild gives 404; a file that
  does not parse gives 500 with the detail \<^verbatim>\<open>Invalid JSON format in manifest file\<close>; a
  file that cannot be read for another reason gives 500 with the text of the failure; a
  rebuild that raises is not caught by the handler and is answered 500 by the framework.
  The status is always one of 200, 404 and 500.
\<close>

theorem libs_manifest_cases:
  "(mfile = None \<longrightarrow> fst (get_libs_manifest reload mfile) = 1)
   \<and> (mfile \<noteq> None \<longrightarrow> fst (get_libs_manifest reload mfile) = 0)
   \<and> (mfile = None \<and> reload None = Inr None \<longrightarrow>
        snd (get_libs_manifest reload mfile) = HTTPException 404 ''Manifest file not found'')
   \<and> (mfile = Some (Parses j) \<or> mfile = None \<and> reload None = Inr (Some (Parses j)) \<longrightarrow>
        snd (get_libs_manifest reload mfile) = Return j)
   \<and> (mfile = Some (Malformed m) \<or> mfile = None \<and> reload None = Inr (Some (Malformed m)) \<longrightarrow>
        snd (get_libs_manifest reload mfile)
          = HTTPException 500 ''Invalid JSON format in manifest file'')
   \<and> ((mfile = Some (Unreadable (Exc k m))
         \<or> mfile = None \<and> reload None = Inr (Some (Unreadable (Exc k m))))
        \<and> k \<noteq> FileNotFoundError \<and> k \<noteq> JSONDecodeError \<longrightarrow>
        snd (get_libs_manifest reload mfile) = HTTPException 500 m)
   \<and> (mfile = None \<and> reload None = Inl e \<longrightarrow>
        snd (get_libs_manifest reload mfile) = Unhandled e
        \<and> http_status (snd (get_libs_manifest reload mfile)) = 500)
   \<and> http_status (snd (get_libs_manifest reload mfile)) \<in> {200, 404, 500}"
  apply (cases mfile)
  subgoal
    by (cases "reload None")
       (auto simp: get_libs_manifest_def split: sum.splits option.splits manifest_file.splits
         py_exception.splits exc_class.splits)
  subgoal for f
    by (cases f)
       (auto simp: get_libs_manifest_def split: sum.splits option.splits manifest_file.splits
         py_exception.splits exc_class.splits)
  done

theorem libs_manifest_cases_witness:
  "get_libs_manifest (\<lambda>f. Inr None) (None :: json manifest_file option)
     = (1, HTTPException 404 ''Manifest file not found'')
   \<and> get_libs_manifest (\<lambda>f. Inr (Some (Parses (JList [JStr ''pack'']))))
       (None :: json manifest_file option)
     = (1, Return (JList [JStr ''pack'']))
   \<and> get_libs_manifest (\<lambda>f. Inr None) (Some (Parses (JList [])))
     = (0, Return (JList []))
   \<and> get_libs_manifest (\<lambda>f. Inr None)
       (Some (Malformed ''Expecting value'' :: json manifest_file))
     = (0, HTTPException 500 ''Invalid JSON format in manifest file'')
   \<and> get_libs_manifest (\<lambda>f. Inr None)
       (Some (Unreadable (Exc OtherException ''Permission denied'') :: json manifest_file))
     = (0, HTTPException 500 ''Permission denied'')
   \<and> get_libs_manifest (\<lambda>f. Inl (Exc OtherException ''network down''))
       (None :: json manifest_file option)
     = (1, Unhandled (Exc OtherException ''network down''))"
proof -
  let ?e = "Exc OtherException ''network down''"
  let ?j = "JList [JStr ''pack'']"
  note T = libs_manifest_cases [where k = OtherException and m = "''Permission denied''"
      and e = ?e]
  have absent: "get_libs_manifest (\<lambda>f. Inr None) (None :: json manifest_file option)
      = (1, HTTPException 404 ''Manifest file not found'')"
    using T [where mfile = None and reload = "\<lambda>f. Inr None" and j = ?j]
    by (simp add: prod_eq_iff)
  have rebuilt: "get_libs_manifest (\<lambda>f. Inr (Some (Parses ?j)))
      (None :: json manifest_file option) = (1, Return ?j)"
    using T [where mfile = None and reload = "\<lambda>f. Inr (Some (Parses ?j))" and j = ?j]
    by (simp add: prod_eq_iff)
  have present: "get_libs_manifest (\<lambda>f. Inr None) (Some (Parses (JList [])))
      = (0, Return (JList []))"
    using T [where mfile = "Some (Parses (JList []))" and reload = "\<lambda>f. Inr None"
        and j = "JList []"]
    by (simp add: prod_eq_iff)
  have malformed: "get_libs_manifest (\<lambda>f. Inr None)
      (Some (Malformed ''Expecting value'' :: json manifest_file))
      = (0, HTTPException 500 ''Invalid JSON format in manifest file'')"
    using libs_manifest_cases [where mfile = "Some (Malformed ''Expecting value'')"
        and reload = "\<lambda>f. Inr None" and j = ?j and m = "''Expecting value''"
        and k = OtherException and e = ?e]
    by (simp add: prod_eq_iff)
  have unreadable: "get_libs_manifest (\<lambda>f. Inr None)
      (Some (Unreadable (Exc OtherException ''Permission denied'') :: json manifest_file))
      = (0, HTTPException 500 ''Permission denied'')"
    using T [where mfile = "Some (Unreadable (Exc OtherException ''Permission denied''))"
        and reload = "\<lambda>f. Inr None" and j = ?j]
    by (simp add: prod_eq_iff)
  have raised: "get_libs_manifest (\<lambda>f. Inl ?e) (None :: json manifest_file option)
      = (1, Unhandled ?e)"
    using T [where mfile = None and reload = "\<lambda>f. Inl ?e" and j = ?j]
    by (simp add: prod_eq_iff)
  from absent rebuilt present malformed unreadable raised show ?thesis
    by simp
qed




end
